theory Spec2Isabelle
  imports Main "HOL-Library.Word"
begin

section \<open>JavaScript values and the built-ins the handlers use\<close>

text \<open>
  A JavaScript string is the list of its UTF-16 code units; \<open>ascii\<close> turns a literal of
  the program text into one. A request body is parsed JSON; a field that is absent
  reads as \<open>Undefined\<close>. Numbers are modelled as integers (a fractional JSON number
  behaves like a non-zero integer under every operation used here). Property names are
  plain strings: the handlers only look up names written in the program.
\<close>

type_synonym ustring = "nat list"

definition ascii :: "string \<Rightarrow> ustring" where
  "ascii s = map of_char s"

datatype jsval =
    Undefined
  | Null
  | Bool bool
  | Num int
  | Str ustring
  | Arr "jsval list"
  | Obj "(string \<times> jsval) list"

abbreviation lit :: "string \<Rightarrow> jsval" where
  "lit s \<equiv> Str (ascii s)"

text \<open>What a handler can throw: a TypeError of the language, an \<open>Error\<close> with a
  message, or a driver error carrying a PostgreSQL error code.\<close>

datatype exn = TypeError | JsError string | PgError string

text \<open>ToBoolean, the test behind \<open>!x\<close>, \<open>x && y\<close>, \<open>x || y\<close> and \<open>if (x)\<close>.\<close>

fun truthy :: "jsval \<Rightarrow> bool" where
  "truthy Undefined = False"
| "truthy Null = False"
| "truthy (Bool b) = b"
| "truthy (Num n) = (n \<noteq> 0)"
| "truthy (Str s) = (s \<noteq> [])"
| "truthy (Arr xs) = True"
| "truthy (Obj kvs) = True"

text \<open>\<open>a || b\<close>\<close>

definition js_or :: "jsval \<Rightarrow> jsval \<Rightarrow> jsval" where
  "js_or a b = (if truthy a then a else b)"

text \<open>Reading a property of a parsed JSON object (destructuring, \<open>obj.key\<close>).\<close>

definition field :: "(string \<times> jsval) list \<Rightarrow> string \<Rightarrow> jsval" where
  "field obj k = (case map_of obj k of None \<Rightarrow> Undefined | Some v \<Rightarrow> v)"

text \<open>White space as \<open>trim\<close>, \<open>parseInt\<close> and the regular expression class \<open>\s\<close> know
  it: TAB, LF, VT, FF, CR, SPACE, NO-BREAK SPACE (U+00A0), U+1680, U+2000 to U+200A,
  the line and paragraph separators U+2028 and U+2029, U+202F, U+205F, U+3000 and the
  byte order mark U+FEFF.\<close>

definition is_space :: "nat \<Rightarrow> bool" where
  "is_space n =
     ((9 \<le> n \<and> n \<le> 13) \<or> n = 32 \<or> n = 160 \<or> n = 5760 \<or> (8192 \<le> n \<and> n \<le> 8202) \<or>
      n = 8232 \<or> n = 8233 \<or> n = 8239 \<or> n = 8287 \<or> n = 12288 \<or> n = 65279)"

definition trim_str :: "ustring \<Rightarrow> ustring" where
  "trim_str s = rev (dropWhile is_space (rev (dropWhile is_space s)))"

text \<open>\<open>v.trim()\<close>: only a string has the method; on \<open>undefined\<close> and \<open>null\<close> the
  property access throws, on every other value the call of a non-function throws.\<close>

fun trim :: "jsval \<Rightarrow> exn + jsval" where
  "trim (Str s) = Inr (Str (trim_str s))"
| "trim v = Inl TypeError"

text \<open>\<open>v?.trim()\<close>: short-circuits to \<open>undefined\<close> on \<open>undefined\<close> and \<open>null\<close> only.\<close>

fun optional_trim :: "jsval \<Rightarrow> exn + jsval" where
  "optional_trim Undefined = Inr Undefined"
| "optional_trim Null = Inr Undefined"
| "optional_trim v = trim v"

text \<open>\<open>parseInt(s)\<close> with no radix: skip leading white space, read an optional sign,
  switch to radix 16 after a \<open>0x\<close>/\<open>0X\<close> prefix, and read the longest prefix of digits;
  \<open>None\<close> is NaN. The value is kept exact: JavaScript rounds beyond \<open>2^53\<close>, where
  every value is outside the range of the id column anyway.\<close>

definition digit_of :: "nat \<Rightarrow> nat option" where
  "digit_of n =
     (if 48 \<le> n \<and> n \<le> 57 then Some (n - 48)
      else if 97 \<le> n \<and> n \<le> 122 then Some (n - 87)
      else if 65 \<le> n \<and> n \<le> 90 then Some (n - 55)
      else None)"

definition is_digit :: "nat \<Rightarrow> nat \<Rightarrow> bool" where
  "is_digit radix c = (case digit_of c of None \<Rightarrow> False | Some d \<Rightarrow> d < radix)"

definition digits_value :: "nat \<Rightarrow> ustring \<Rightarrow> nat" where
  "digits_value radix ds = foldl (\<lambda>a c. a * radix + the (digit_of c)) 0 ds"

fun strip_sign :: "ustring \<Rightarrow> int \<times> ustring" where
  "strip_sign (c # cs) =
     (if c = of_char (CHR ''-'') then (-1, cs)
      else if c = of_char (CHR ''+'') then (1, cs) else (1, c # cs))"
| "strip_sign [] = (1, [])"

fun strip_radix :: "ustring \<Rightarrow> nat \<times> ustring" where
  "strip_radix (c # d # cs) =
     (if c = of_char (CHR ''0'') \<and> (d = of_char (CHR ''x'') \<or> d = of_char (CHR ''X''))
      then (16, cs) else (10, c # d # cs))"
| "strip_radix cs = (10, cs)"

definition parseInt :: "ustring \<Rightarrow> int option" where
  "parseInt s =
     (let (sign, s1) = strip_sign (dropWhile is_space s);
          (radix, s2) = strip_radix s1;
          ds = takeWhile (is_digit radix) s2
      in if ds = [] then None else Some (sign * int (digits_value radix ds)))"

text \<open>Converting a parsed JSON value to a primitive (ToPrimitive, as \<open>new Date(v)\<close>,
  ToString and \<open>v < n\<close> apply it) throws a TypeError exactly when it meets an object
  with an own property \<open>toString\<close>: parsed JSON holds no function, the inherited
  \<open>valueOf\<close> returns the object itself, and so no method yields a primitive. An array is
  converted by joining the strings of its elements.\<close>

fun to_primitive_throws :: "jsval \<Rightarrow> bool" where
  "to_primitive_throws (Obj kvs) = (''toString'' \<in> set (map fst kvs))"
| "to_primitive_throws (Arr xs) = list_ex to_primitive_throws xs"
| "to_primitive_throws v = False"

text \<open>What the platform, the libraries and the store decide, taken as parameters:
  whether \<open>new Date(v)\<close> is a valid date, ToString of a non-string, \<open>v < n\<close> for a \<open>v\<close>
  that needs a conversion first, the driver's text form of a non-string query
  parameter, what the \<open>due_date\<close> column makes of a parameter that is not NULL (\<open>Inl\<close>:
  the store rejects it; \<open>Inr v\<close>: it is stored and read back as \<open>v\<close>), bcrypt's hash
  of a string and its comparison of a string with a hash, and the token signature
  (\<open>Inl\<close>: signing throws).\<close>

record runtime =
  Date_valid :: "jsval \<Rightarrow> bool"
  toString :: "jsval \<Rightarrow> ustring"
  less_than :: "jsval \<Rightarrow> int \<Rightarrow> bool"
  prepareValue :: "jsval \<Rightarrow> ustring"
  pg_date :: "jsval \<Rightarrow> exn + jsval"
  hash_of :: "ustring \<Rightarrow> ustring"
  hash_matches :: "ustring \<Rightarrow> ustring \<Rightarrow> bool"
  jwt_sign :: "jsval \<Rightarrow> jsval \<Rightarrow> exn + ustring"

text \<open>\<open>new Date(v)\<close> and \<open>isNaN(date.getTime())\<close>: the constructor throws when the
  conversion of \<open>v\<close> to a primitive does; otherwise the date is valid or not.\<close>

definition new_Date :: "runtime \<Rightarrow> jsval \<Rightarrow> exn + bool" where
  "new_Date rt v = (if to_primitive_throws v then Inl TypeError else Inr (Date_valid rt v))"





definition bcrypt_compare :: "runtime \<Rightarrow> jsval \<Rightarrow> jsval \<Rightarrow> exn + bool" where
  "bcrypt_compare rt s hash =
     (case s of
        Str p \<Rightarrow> (case hash of Str h \<Rightarrow> Inr (hash_matches rt p h)
                   | _ \<Rightarrow> Inl (JsError ''Illegal arguments''))
      | _ \<Rightarrow> Inl (JsError ''Illegal arguments''))"

section \<open>The store\<close>

text \<open>
  The two tables, as lists of rows in insertion order. A column of a row holds what a
  read of it returns (\<open>Null\<close> is SQL NULL): the text columns return the parameter they
  were given, the \<open>due_date\<close> column returns what the store makes of it. The text columns
  of a user hold a string or NULL (\<open>None\<close>).
\<close>

text \<open>
  Modelled from the spec: the schema file (\<open>database/schema.sql\<close>) is not among the
  sources. The spec gives \<open>users(id, email UNIQUE, password_hash, name, created_at)\<close> and
  \<open>tasks(id, user_id FK, title, description, priority, status, due_date, created_at,
  updated_at)\<close>, identifiers being integers generated by the store and the due date a
  calendar date. Here an identifier is a 32-bit integer (PostgreSQL's \<open>integer\<close>, read
  as signed by \<open>sint\<close>) drawn from a counter per table that is taken not to run out, a
  timestamp is the time of the statement, passed as \<open>now\<close>, and a statement whose
  parameter the column cannot hold fails. The text columns are taken to hold every
  string.
\<close>

record user_row =
  u_id :: "32 word"
  u_email :: "ustring option"
  u_password_hash :: ustring
  u_name :: "ustring option"
  u_created_at :: nat

record task =
  t_id :: "32 word"
  t_user_id :: "32 word"
  t_title :: jsval
  t_description :: jsval
  t_priority :: jsval
  t_due_date :: jsval
  t_status :: jsval
  t_created_at :: nat
  t_updated_at :: nat

record db =
  users :: "user_row list"
  tasks :: "task list"
  next_user_id :: "32 word"
  next_task_id :: "32 word"

text \<open>The values an \<open>integer\<close> column or parameter can hold.\<close>

definition int4 :: "int \<Rightarrow> bool" where
  "int4 i = (- 2147483648 \<le> i \<and> i \<le> 2147483647)"

text \<open>The driver sends \<open>undefined\<close> as NULL.\<close>

definition sql_param :: "jsval \<Rightarrow> jsval" where
  "sql_param v = (if v = Undefined then Null else v)"

text \<open>The \<open>due_date\<close> column: NULL is stored as NULL, any other parameter is rejected or
  converted by the store.\<close>

definition date_column :: "runtime \<Rightarrow> jsval \<Rightarrow> exn + jsval" where
  "date_column rt v = (if sql_param v = Null then Inr Null else pg_date rt v)"

section \<open>taskModel\<close>

text \<open>The \<open>taskData\<close> object (fields prefixed \<open>d_\<close>; the columns of a task row are
  prefixed \<open>t_\<close>, those of a user row \<open>u_\<close>). A user id is the id of a row of \<open>users\<close> that
  the verified token carries, hence a 32-bit integer; a task id is whatever integer the
  handler parsed from the path.\<close>

record taskData =
  d_title :: jsval
  d_description :: jsval
  d_priority :: jsval
  d_dueDate :: jsval
  d_status :: jsval

text \<open>\<open>INSERT INTO tasks (user_id, title, description, priority, due_date, status) ...
  RETURNING\<close> the whole row, with the values \<open>description || null\<close>,
  \<open>priority || 'medium'\<close>, \<open>dueDate || null\<close>, \<open>status || 'pending'\<close>. The statement
  fails when the store rejects the due date or no user has the owner's id (the foreign
  key); the function logs and rethrows the error.\<close>

definition createTask :: "runtime \<Rightarrow> nat \<Rightarrow> db \<Rightarrow> 32 word \<Rightarrow> taskData \<Rightarrow> exn + (db \<times> task)" where
  "createTask rt now d userId taskData =
     (case date_column rt (js_or (d_dueDate taskData) Null) of
        Inl error \<Rightarrow> Inl error
      | Inr due \<Rightarrow>
         if userId \<notin> set (map u_id (users d)) then Inl (PgError ''23503'')
         else
         (let row = \<lparr> t_id = next_task_id d,
                      t_user_id = userId,
                      t_title = sql_param (d_title taskData),
                      t_description = js_or (d_description taskData) Null,
                      t_priority = js_or (d_priority taskData) (lit ''medium''),
                      t_due_date = due,
                      t_status = js_or (d_status taskData) (lit ''pending''),
                      t_created_at = now,
                      t_updated_at = now \<rparr>
          in Inr (d\<lparr> tasks := tasks d @ [row], next_task_id := next_task_id d + 1 \<rparr>, row)))"

text \<open>\<open>WHERE id = $1 AND user_id = $2\<close>\<close>

definition owned :: "int \<Rightarrow> 32 word \<Rightarrow> task \<Rightarrow> bool" where
  "owned taskId userId t = (sint (t_id t) = taskId \<and> t_user_id t = userId)"

text \<open>\<open>SELECT ... FROM tasks WHERE id = $1 AND user_id = $2\<close>: the query fails when the
  task id is not a 32-bit integer (PostgreSQL: numeric value out of range, code 22003;
  the model gives this code also where the driver prints the number in exponent form
  and the store refuses its syntax); otherwise the function returns the first row, or
  null.\<close>

definition getTaskById :: "db \<Rightarrow> int \<Rightarrow> 32 word \<Rightarrow> exn + task option" where
  "getTaskById d taskId userId =
     (if \<not> int4 taskId then Inl (PgError ''22003'')
      else Inr (case filter (owned taskId userId) (tasks d) of [] \<Rightarrow> None | t # rest \<Rightarrow> Some t))"

text \<open>\<open>UPDATE tasks SET title, description, priority, due_date, status, updated_at =
  CURRENT_TIMESTAMP WHERE id = $6 AND user_id = $7 RETURNING\<close> the updated rows; the
  statement fails when the store rejects the due date or the task id is out of range;
  otherwise the function returns the first updated row, or null when there is none.\<close>

definition set_columns :: "nat \<Rightarrow> taskData \<Rightarrow> jsval \<Rightarrow> task \<Rightarrow> task" where
  "set_columns now taskData due t =
     t\<lparr> t_title := sql_param (d_title taskData),
        t_description := sql_param (d_description taskData),
        t_priority := sql_param (d_priority taskData),
        t_due_date := due,
        t_status := sql_param (d_status taskData),
        t_updated_at := now \<rparr>"

definition updateTask ::
  "runtime \<Rightarrow> nat \<Rightarrow> db \<Rightarrow> int \<Rightarrow> 32 word \<Rightarrow> taskData \<Rightarrow> exn + (db \<times> task option)" where
  "updateTask rt now d taskId userId taskData =
     (case date_column rt (d_dueDate taskData) of
        Inl error \<Rightarrow> Inl error
      | Inr due \<Rightarrow>
         if \<not> int4 taskId then Inl (PgError ''22003'')
         else
           (let rows = map (set_columns now taskData due) (filter (owned taskId userId) (tasks d));
                d' = d\<lparr> tasks := map (\<lambda>t. if owned taskId userId t
                                            then set_columns now taskData due t else t)
                                       (tasks d) \<rparr>
            in Inr (d', case rows of [] \<Rightarrow> None | t # rest \<Rightarrow> Some t)))"

text \<open>\<open>DELETE FROM tasks WHERE id = $1 AND user_id = $2 RETURNING id\<close>; the statement
  fails when the task id is out of range; otherwise the function returns whether a row
  came back.\<close>

definition deleteTask :: "db \<Rightarrow> int \<Rightarrow> 32 word \<Rightarrow> exn + (db \<times> bool)" where
  "deleteTask d taskId userId =
     (if \<not> int4 taskId then Inl (PgError ''22003'')
      else
        (let rows = filter (owned taskId userId) (tasks d)
         in Inr (d\<lparr> tasks := filter (\<lambda>t. \<not> owned taskId userId t) (tasks d) \<rparr>,
                 length rows > 0)))"

section \<open>taskController\<close>

text \<open>A request as the handlers read it: the \<open>:id\<close> path parameter, the parsed body,
  and the user id the authentication middleware took from the verified token.\<close>

record request =
  params_id :: ustring
  body :: "(string \<times> jsval) list"
  user_userId :: "32 word"

text \<open>Response bodies: \<open>{error}\<close>, \<open>{message}\<close>, \<open>{message?, task}\<close>,
  \<open>{message, user}\<close> and \<open>{message, token, user}\<close>. The \<open>task\<close> object of a response copies
  the nine columns of the row under camel-case names, so it is given as the row.\<close>

datatype body =
    ErrorBody string
  | MessageBody string
  | TaskBody "string option" task
  | UserBody string "(string \<times> jsval) list"
  | LoginBody string ustring "(string \<times> jsval) list"

type_synonym response = "nat \<times> body"

definition validPriorities :: "jsval list" where
  "validPriorities = [lit ''low'', lit ''medium'', lit ''high'']"

definition validStatuses :: "jsval list" where
  "validStatuses = [lit ''pending'', lit ''in_progress'', lit ''completed'']"

text \<open>\<open>!title || title.trim() === ''\<close>\<close>

definition title_missing :: "jsval \<Rightarrow> exn + bool" where
  "title_missing title =
     (if \<not> truthy title then Inr True
      else case trim title of Inl e \<Rightarrow> Inl e | Inr t \<Rightarrow> Inr (t = Str []))"

text \<open>The checks shared by \<open>create\<close> and \<open>update\<close>, in the order of the source: the
  outer \<open>Inl\<close> is an exception (the handler's \<open>catch\<close> answers 500), the inner \<open>Inl\<close> is
  the response of the first check that fails.\<close>

definition validate :: "runtime \<Rightarrow> jsval \<Rightarrow> jsval \<Rightarrow> jsval \<Rightarrow> jsval \<Rightarrow> exn + (response + unit)" where
  "validate rt title priority status dueDate =
     (case title_missing title of
        Inl e \<Rightarrow> Inl e
      | Inr True \<Rightarrow> Inr (Inl (400, ErrorBody ''Title is required''))
      | Inr False \<Rightarrow>
          if truthy priority \<and> priority \<notin> set validPriorities
          then Inr (Inl (400, ErrorBody ''Priority must be low, medium, or high''))
          else if truthy status \<and> status \<notin> set validStatuses
          then Inr (Inl (400, ErrorBody ''Status must be pending, in_progress, or completed''))
          else if truthy dueDate
          then (case new_Date rt dueDate of
                  Inl e \<Rightarrow> Inl e
                | Inr valid \<Rightarrow>
                    if \<not> valid then Inr (Inl (400, ErrorBody ''Invalid due date format''))
                    else Inr (Inr ()))
          else Inr (Inr ()))"

definition create :: "runtime \<Rightarrow> nat \<Rightarrow> db \<Rightarrow> request \<Rightarrow> db \<times> response" where
  "create rt now d req =
     (let title = field (body req) ''title'';
          description = field (body req) ''description'';
          priority = field (body req) ''priority'';
          dueDate = field (body req) ''dueDate'';
          status = field (body req) ''status''
      in case validate rt title priority status dueDate of
           Inl e \<Rightarrow> (d, (500, ErrorBody ''Server error creating task''))
         | Inr (Inl r) \<Rightarrow> (d, r)
         | Inr (Inr u) \<Rightarrow>
            (case trim title of
               Inl e \<Rightarrow> (d, (500, ErrorBody ''Server error creating task''))
             | Inr t \<Rightarrow>
                (case optional_trim description of
                   Inl e \<Rightarrow> (d, (500, ErrorBody ''Server error creating task''))
                 | Inr ds \<Rightarrow>
                    (case createTask rt now d (user_userId req)
                            \<lparr> d_title = t, d_description = ds, d_priority = priority,
                              d_dueDate = dueDate, d_status = status \<rparr> of
                       Inl e \<Rightarrow> (d, (500, ErrorBody ''Server error creating task''))
                     | Inr (d', task) \<Rightarrow>
                         (d', (201, TaskBody (Some ''Task created successfully'') task))))))"

definition getTask :: "db \<Rightarrow> request \<Rightarrow> response" where
  "getTask d req =
     (case parseInt (params_id req) of
        None \<Rightarrow> (400, ErrorBody ''Invalid task ID'')
      | Some taskId \<Rightarrow>
         (case getTaskById d taskId (user_userId req) of
            Inl e \<Rightarrow> (500, ErrorBody ''Server error fetching task'')
          | Inr None \<Rightarrow> (404, ErrorBody ''Task not found'')
          | Inr (Some task) \<Rightarrow> (200, TaskBody None task)))"

definition update :: "runtime \<Rightarrow> nat \<Rightarrow> db \<Rightarrow> request \<Rightarrow> db \<times> response" where
  "update rt now d req =
     (case parseInt (params_id req) of
        None \<Rightarrow> (d, (400, ErrorBody ''Invalid task ID''))
      | Some taskId \<Rightarrow>
         (let title = field (body req) ''title'';
              description = field (body req) ''description'';
              priority = field (body req) ''priority'';
              dueDate = field (body req) ''dueDate'';
              status = field (body req) ''status''
          in case validate rt title priority status dueDate of
               Inl e \<Rightarrow> (d, (500, ErrorBody ''Server error updating task''))
             | Inr (Inl r) \<Rightarrow> (d, r)
             | Inr (Inr u) \<Rightarrow>
                (case trim title of
                   Inl e \<Rightarrow> (d, (500, ErrorBody ''Server error updating task''))
                 | Inr t \<Rightarrow>
                    (case optional_trim description of
                       Inl e \<Rightarrow> (d, (500, ErrorBody ''Server error updating task''))
                     | Inr ds \<Rightarrow>
                        (case updateTask rt now d taskId (user_userId req)
                                \<lparr> d_title = t,
                                  d_description = js_or ds Null,
                                  d_priority = js_or priority (lit ''medium''),
                                  d_dueDate = js_or dueDate Null,
                                  d_status = js_or status (lit ''pending'') \<rparr> of
                           Inl e \<Rightarrow> (d, (500, ErrorBody ''Server error updating task''))
                         | Inr (d', None) \<Rightarrow> (d', (404, ErrorBody ''Task not found''))
                         | Inr (d', Some task) \<Rightarrow>
                             (d', (200, TaskBody (Some ''Task updated successfully'') task)))))))"

definition remove :: "db \<Rightarrow> request \<Rightarrow> db \<times> response" where
  "remove d req =
     (case parseInt (params_id req) of
        None \<Rightarrow> (d, (400, ErrorBody ''Invalid task ID''))
      | Some taskId \<Rightarrow>
         (case deleteTask d taskId (user_userId req) of
            Inl e \<Rightarrow> (d, (500, ErrorBody ''Server error deleting task''))
          | Inr (d', deleted) \<Rightarrow>
              if \<not> deleted then (d', (404, ErrorBody ''Task not found''))
              else (d', (200, MessageBody ''Task deleted successfully''))))"

section \<open>userModel\<close>

text \<open>A text parameter as the driver sends it: \<open>undefined\<close> and \<open>null\<close> are NULL, a
  string is itself, any other value is encoded by the driver.\<close>

definition sql_text :: "runtime \<Rightarrow> jsval \<Rightarrow> ustring option" where
  "sql_text rt v =
     (case v of Undefined \<Rightarrow> None | Null \<Rightarrow> None | Str s \<Rightarrow> Some s
      | _ \<Rightarrow> Some (prepareValue rt v))"

definition sql_value :: "ustring option \<Rightarrow> jsval" where
  "sql_value c = (case c of None \<Rightarrow> Null | Some s \<Rightarrow> Str s)"





text \<open>\<open>SELECT id, email, password_hash, name, created_at FROM users WHERE email = $1\<close>\<close>

definition findUserByEmail :: "runtime \<Rightarrow> db \<Rightarrow> jsval \<Rightarrow> (string \<times> jsval) list option" where
  "findUserByEmail rt d email =
     (case filter (\<lambda>u. u_email u \<noteq> None \<and> u_email u = sql_text rt email) (users d) of
        [] \<Rightarrow> None
      | u # rest \<Rightarrow>
          Some [(''id'', Num (sint (u_id u))), (''email'', sql_value (u_email u)),
                (''password_hash'', Str (u_password_hash u)), (''name'', sql_value (u_name u)),
                (''created_at'', Num (int (u_created_at u)))])"

text \<open>\<open>SELECT id, email, name, created_at FROM users WHERE id = $1\<close>\<close>

definition findUserById :: "db \<Rightarrow> 32 word \<Rightarrow> (string \<times> jsval) list option" where
  "findUserById d userId =
     (case filter (\<lambda>u. u_id u = userId) (users d) of
        [] \<Rightarrow> None
      | u # rest \<Rightarrow>
          Some [(''id'', Num (sint (u_id u))), (''email'', sql_value (u_email u)),
                (''name'', sql_value (u_name u)), (''created_at'', Num (int (u_created_at u)))])"

section \<open>authController\<close>




definition login :: "runtime \<Rightarrow> db \<Rightarrow> request \<Rightarrow> response" where
  "login rt d req =
     (let email = field (body req) ''email'';
          password = field (body req) ''password''
      in if \<not> truthy email \<or> \<not> truthy password
         then (400, ErrorBody ''Email and password are required'')
         else
           (case findUserByEmail rt d email of
              None \<Rightarrow> (401, ErrorBody ''Invalid email or password'')
            | Some user \<Rightarrow>
               (case bcrypt_compare rt password (field user ''password_hash'') of
                  Inl e \<Rightarrow> (500, ErrorBody ''Server error during login'')
                | Inr isPasswordValid \<Rightarrow>
                   if \<not> isPasswordValid
                   then (401, ErrorBody ''Invalid email or password'')
                   else
                     (case jwt_sign rt (field user ''id'') (field user ''email'') of
                        Inl e \<Rightarrow> (500, ErrorBody ''Server error during login'')
                      | Inr token \<Rightarrow>
                          (200, LoginBody ''Login successful'' token
                                  [(''id'', field user ''id''), (''email'', field user ''email''),
                                   (''name'', field user ''name'')])))))"

section \<open>Notions the properties are stated with\<close>

text \<open>A numeric id: a non-empty string of decimal digits.\<close>

definition numeric :: "ustring \<Rightarrow> bool" where
  "numeric s = (s \<noteq> [] \<and> list_all (is_digit 10) s)"

text \<open>The body passes every check of \<open>create\<close> and \<open>update\<close>, and trimming the
  description does not throw.\<close>

definition accepted :: "runtime \<Rightarrow> request \<Rightarrow> bool" where
  "accepted rt req =
     (validate rt (field (body req) ''title'') (field (body req) ''priority'')
        (field (body req) ''status'') (field (body req) ''dueDate'') = Inr (Inr ())
      \<and> (case optional_trim (field (body req) ''description'') of Inl e \<Rightarrow> False | Inr v \<Rightarrow> True))"

text \<open>The store accepts the due date of the body (an absent or falsy one is NULL).\<close>

definition storable :: "runtime \<Rightarrow> request \<Rightarrow> bool" where
  "storable rt req =
     (case date_column rt (js_or (field (body req) ''dueDate'') Null) of
        Inl e \<Rightarrow> False | Inr v \<Rightarrow> True)"

text \<open>What must never change about a stored task: its id, its owner and its creation
  timestamp.\<close>

definition task_identity :: "task \<Rightarrow> 32 word \<times> 32 word \<times> nat" where
  "task_identity t = (t_id t, t_user_id t, t_created_at t)"


section \<open>Example values\<close>

text \<open>A runtime in which one date string parses in JavaScript, the \<open>due_date\<close> column
  takes that string and reads it back as the timestamp of its midnight (as a
  PostgreSQL date column read through the driver does, here in UTC) and rejects
  everything else, hashing prefixes a marker, and signing gives a fixed token.\<close>

definition rt0 :: runtime where
  "rt0 = \<lparr> Date_valid = (\<lambda>v. v = lit ''2030-01-15''),
           toString = (\<lambda>v. []),
           less_than = (\<lambda>v n. False),
           prepareValue = (\<lambda>v. []),
           pg_date = (\<lambda>v. if v = lit ''2030-01-15'' then Inr (lit ''2030-01-15T00:00:00.000Z'')
                           else Inl (PgError ''22007'')),
           hash_of = (\<lambda>p. ascii ''$'' @ p),
           hash_matches = (\<lambda>p h. ascii ''$'' @ p = h),
           jwt_sign = (\<lambda>i e. Inr (ascii ''token'')) \<rparr>"

text \<open>Two registered users: Alice (id 7) and Bob (id 8).\<close>

definition alice :: user_row where
  "alice = \<lparr> u_id = 7, u_email = Some (ascii ''alice@example.com''),
             u_password_hash = ascii ''$secret1'', u_name = Some (ascii ''Alice''),
             u_created_at = 50 \<rparr>"

definition bob :: user_row where
  "bob = \<lparr> u_id = 8, u_email = Some (ascii ''bob@example.com''),
           u_password_hash = ascii ''$secret2'', u_name = Some (ascii ''Bob''),
           u_created_at = 51 \<rparr>"

text \<open>Alice owns task 12, Bob task 13; \<open>db2\<close> is \<open>db1\<close> without task 12.\<close>

definition task12 :: task where
  "task12 = \<lparr> t_id = 12, t_user_id = 7, t_title = lit ''Buy milk'',
              t_description = lit ''2 litres'', t_priority = lit ''high'',
              t_due_date = lit ''2030-01-15T00:00:00.000Z'', t_status = lit ''in_progress'',
              t_created_at = 100, t_updated_at = 100 \<rparr>"

definition task13 :: task where
  "task13 = \<lparr> t_id = 13, t_user_id = 8, t_title = lit ''Walk dog'', t_description = Null,
              t_priority = lit ''low'', t_due_date = Null, t_status = lit ''pending'',
              t_created_at = 101, t_updated_at = 101 \<rparr>"

definition db1 :: db where
  "db1 = \<lparr> users = [alice, bob], tasks = [task12, task13], next_user_id = 9,
           next_task_id = 14 \<rparr>"

definition db2 :: db where
  "db2 = \<lparr> users = [alice, bob], tasks = [task13], next_user_id = 9, next_task_id = 14 \<rparr>"

text \<open>Requests on task 12: by its owner (user 7) and by user 8; the update sends a
  title and nothing else.\<close>

definition req_12_by_7 :: request where
  "req_12_by_7 = \<lparr> params_id = ascii ''12'', body = [(''title'', lit ''Buy oat milk'')],
                   user_userId = 7 \<rparr>"

definition req_12_by_8 :: request where
  "req_12_by_8 = \<lparr> params_id = ascii ''12'', body = [(''title'', lit ''Buy oat milk'')],
                   user_userId = 8 \<rparr>"

text \<open>Requests on an id outside the range of the id column and on the id \<open>12abc\<close>; an
  update of task 12 that sets every field (the title with surrounding blanks), and the
  rows task 12 becomes.\<close>

definition req_huge_by_7 :: request where
  "req_huge_by_7 = \<lparr> params_id = ascii ''2147483648'', body = [], user_userId = 7 \<rparr>"

definition req_12abc_by_7 :: request where
  "req_12abc_by_7 = \<lparr> params_id = ascii ''12abc'', body = [], user_userId = 7 \<rparr>"



definition task12_retitled :: task where
  "task12_retitled = \<lparr> t_id = 12, t_user_id = 7, t_title = lit ''Buy oat milk'',
      t_description = Null, t_priority = lit ''medium'', t_due_date = Null,
      t_status = lit ''pending'', t_created_at = 100, t_updated_at = 500 \<rparr>"

text \<open>Bodies for create: an empty-string priority, an invalid priority, and every field
  set (with stray \<open>userId\<close> keys); the request that fetches task 14 as user 7, and the
  row the full body is stored as.\<close>

definition req_blank_priority :: request where
  "req_blank_priority = \<lparr> params_id = ascii ''12'',
      body = [(''title'', lit ''Buy milk''), (''priority'', Str [])], user_userId = 7 \<rparr>"

definition req_bad_priority :: request where
  "req_bad_priority = \<lparr> params_id = ascii ''12'',
      body = [(''title'', lit ''Buy milk''), (''priority'', lit ''urgent'')], user_userId = 7 \<rparr>"

definition req_full :: request where
  "req_full = \<lparr> params_id = ascii ''12'',
      body = [(''title'', lit ''Buy milk''), (''description'', lit ''2 litres''),
              (''priority'', lit ''high''), (''status'', lit ''in_progress''),
              (''dueDate'', lit ''2030-01-15''), (''userId'', Num 999), (''user_id'', Num 999)],
      user_userId = 7 \<rparr>"


definition task14 :: task where
  "task14 = \<lparr> t_id = 14, t_user_id = 7, t_title = lit ''Buy milk'',
              t_description = lit ''2 litres'', t_priority = lit ''high'',
              t_due_date = lit ''2030-01-15T00:00:00.000Z'', t_status = lit ''in_progress'',
              t_created_at = 200, t_updated_at = 200 \<rparr>"

text \<open>A store with one registered user, an empty store, a signup with that user's
  email, and logins with a wrong password and with a number as password.\<close>

definition db_users :: db where
  "db_users = \<lparr> users = [alice], tasks = [], next_user_id = 8, next_task_id = 1 \<rparr>"

definition db_empty :: db where
  "db_empty = \<lparr> users = [], tasks = [], next_user_id = 1, next_task_id = 1 \<rparr>"


definition req_login_alice_wrong :: request where
  "req_login_alice_wrong = \<lparr> params_id = [],
      body = [(''email'', lit ''alice@example.com''), (''password'', lit ''guess'')],
      user_userId = 0 \<rparr>"

definition req_login_alice_number :: request where
  "req_login_alice_number = \<lparr> params_id = [],
      body = [(''email'', lit ''alice@example.com''), (''password'', Num 12345)],
      user_userId = 0 \<rparr>"

section \<open>Integers of the id column\<close>

lemma sint_int4: "int4 (sint (w :: 32 word))"
  using sint_ge [of w] sint_lt [of w] by (simp add: int4_def)

lemma sint_eq: "sint (a :: 32 word) = sint b \<longleftrightarrow> a = b"
  by (auto intro: signed_word_eqI)

section \<open>Path parameter parsing\<close>

lemmas parse_defs = parseInt_def is_space_def is_digit_def digit_of_def digits_value_def ascii_def

lemma digit_not_space: "is_digit 10 c \<Longrightarrow> \<not> is_space c"
  by (auto simp: is_digit_def digit_of_def is_space_def split: if_splits option.splits)

lemma digit_not_sign:
  "is_digit 10 c \<Longrightarrow> c \<noteq> of_char (CHR ''-'') \<and> c \<noteq> of_char (CHR ''+'') \<and>
     c \<noteq> of_char (CHR ''x'') \<and> c \<noteq> of_char (CHR ''X'')"
  by (auto simp: is_digit_def digit_of_def split: if_splits option.splits)

lemma takeWhile_all: "list_all P xs \<Longrightarrow> takeWhile P xs = xs"
  by (induction xs) auto

lemma strip_radix_numeric: "list_all (is_digit 10) s \<Longrightarrow> strip_radix s = (10, s)"
  by (cases s rule: strip_radix.cases) (auto dest: digit_not_sign)

lemma parseInt_numeric:
  assumes "numeric s"
  shows "parseInt s = Some (int (digits_value 10 s))"
proof -
  from assms obtain c cs where s: "s = c # cs" and all: "list_all (is_digit 10) s"
    by (cases s) (auto simp: numeric_def)
  have d: "is_digit 10 c" using s all by simp
  have 1: "dropWhile is_space s = s" using s d digit_not_space by simp
  have 2: "strip_sign s = (1, s)" using s d digit_not_sign by simp
  have 3: "strip_radix s = (10, s)" using all by (rule strip_radix_numeric)
  have 4: "takeWhile (is_digit 10) s = s" using all by (rule takeWhile_all)
  have 5: "s \<noteq> []" using s by simp
  show ?thesis unfolding parseInt_def 1 2 by (simp add: 3 4 5)
qed

text \<open>A numeric id is never answered with 400 "Invalid task ID".\<close>

lemma numeric_id_not_rejected:
  "numeric (params_id req) \<Longrightarrow> getTask d req \<noteq> (400, ErrorBody ''Invalid task ID'')"
  by (auto simp: getTask_def parseInt_numeric split: sum.splits option.splits)

lemmas eval_defs = Let_def create_def update_def validate_def title_missing_def field_def
  trim_str_def is_space_def validPriorities_def validStatuses_def createTask_def updateTask_def
  js_or_def sql_param_def set_columns_def owned_def getTask_def getTaskById_def rt0_def db1_def
  task12_def task13_def alice_def bob_def ascii_def new_Date_def date_column_def int4_def

text \<open>
  C6 (a defect of the code): the id \<open>12abc\<close> is not numeric, yet \<open>parseInt\<close> reads its
  leading digits, so the handlers do not answer 400: GET looks task 12 up and returns
  it, DELETE removes it.
\<close>

theorem non_numeric_id_reaches_lookup:
  "\<not> numeric (params_id req_12abc_by_7) \<and>
   parseInt (params_id req_12abc_by_7) = Some 12 \<and>
   getTask db1 req_12abc_by_7 = (200, TaskBody None task12) \<and>
   remove db1 req_12abc_by_7
     = (db1\<lparr> tasks := [task13] \<rparr>, (200, MessageBody ''Task deleted successfully''))"
  by (simp add: req_12abc_by_7_def numeric_def getTask_def getTaskById_def remove_def
      deleteTask_def owned_def db1_def task12_def task13_def parse_defs int4_def)

text \<open>C6, the defect at this request: neither handler answers 400 "Invalid task ID",
  and the delete changes the store.\<close>

theorem non_numeric_id_reaches_lookup_witness:
  "getTask db1 req_12abc_by_7 \<noteq> (400, ErrorBody ''Invalid task ID'') \<and>
   snd (remove db1 req_12abc_by_7) \<noteq> (400, ErrorBody ''Invalid task ID'') \<and>
   tasks (fst (remove db1 req_12abc_by_7)) = [task13] \<and>
   tasks db1 = [task12, task13]"
  using non_numeric_id_reaches_lookup by (simp add: db1_def)

section \<open>Owner-scoped queries\<close>

lemma getTaskById_none:
  "int4 i \<Longrightarrow> \<forall>t\<in>set (tasks d). \<not> owned i u t \<Longrightarrow> getTaskById d i u = Inr None"
  by (simp add: getTaskById_def filter_False)

lemma updateTask_none:
  "int4 i \<Longrightarrow> \<forall>t\<in>set (tasks d). \<not> owned i u t \<Longrightarrow>
   updateTask rt now d i u td
     = (case date_column rt (d_dueDate td) of Inl e \<Rightarrow> Inl e | Inr due \<Rightarrow> Inr (d, None))"
  by (simp add: updateTask_def filter_False Let_def map_idI split: sum.splits)

lemma deleteTask_none:
  "int4 i \<Longrightarrow> \<forall>t\<in>set (tasks d). \<not> owned i u t \<Longrightarrow> deleteTask d i u = Inr (d, False)"
  by (simp add: deleteTask_def filter_False Let_def filter_True)

lemma getTask_none:
  "parseInt (params_id req) = Some i \<Longrightarrow> int4 i \<Longrightarrow>
   \<forall>t\<in>set (tasks d). \<not> owned i (user_userId req) t
   \<Longrightarrow> getTask d req = (404, ErrorBody ''Task not found'')"
  by (simp add: getTask_def getTaskById_none)

lemma remove_none:
  "parseInt (params_id req) = Some i \<Longrightarrow> int4 i \<Longrightarrow>
   \<forall>t\<in>set (tasks d). \<not> owned i (user_userId req) t
   \<Longrightarrow> remove d req = (d, (404, ErrorBody ''Task not found''))"
  by (simp add: remove_def deleteTask_none)

lemma validate_ok_trim:
  "validate rt title p s dd = Inr (Inr u) \<Longrightarrow> \<exists>t. trim title = Inr t"
  by (auto simp: validate_def title_missing_def split: if_splits sum.splits bool.splits)

lemma accepted_trims:
  assumes "accepted rt req"
  obtains ttl ds where "trim (field (body req) ''title'') = Inr ttl"
    and "optional_trim (field (body req) ''description'') = Inr ds"
    and "validate rt (field (body req) ''title'') (field (body req) ''priority'')
           (field (body req) ''status'') (field (body req) ''dueDate'') = Inr (Inr ())"
proof -
  from assms have v: "validate rt (field (body req) ''title'') (field (body req) ''priority'')
           (field (body req) ''status'') (field (body req) ''dueDate'') = Inr (Inr ())"
    by (simp add: accepted_def)
  then obtain ttl where 1: "trim (field (body req) ''title'') = Inr ttl"
    using validate_ok_trim by blast
  from assms obtain ds where 2: "optional_trim (field (body req) ''description'') = Inr ds"
    by (auto simp: accepted_def split: sum.splits)
  from 1 2 v that show ?thesis by blast
qed

lemma create_success_accepted:
  "snd (create rt now d req) = (201, b) \<Longrightarrow> accepted rt req"
  by (auto simp: create_def accepted_def Let_def validate_def
      split: sum.splits prod.splits bool.splits if_splits)

lemma update_success_accepted:
  "snd (update rt now d req) = (200, b) \<Longrightarrow> accepted rt req \<and> parseInt (params_id req) \<noteq> None"
  by (auto simp: update_def accepted_def Let_def validate_def
      split: sum.splits prod.splits bool.splits if_splits option.splits)

lemma create_accepted:
  assumes "accepted rt req"
    and "trim (field (body req) ''title'') = Inr ttl"
    and "optional_trim (field (body req) ''description'') = Inr ds"
  shows "create rt now d req =
           (case createTask rt now d (user_userId req)
                   \<lparr> d_title = ttl, d_description = ds,
                     d_priority = field (body req) ''priority'',
                     d_dueDate = field (body req) ''dueDate'',
                     d_status = field (body req) ''status'' \<rparr> of
              Inl e \<Rightarrow> (d, (500, ErrorBody ''Server error creating task''))
            | Inr (d', task) \<Rightarrow> (d', (201, TaskBody (Some ''Task created successfully'') task)))"
  using assms by (simp add: create_def accepted_def Let_def)

lemma update_accepted:
  assumes "accepted rt req" and "parseInt (params_id req) = Some i"
    and "trim (field (body req) ''title'') = Inr ttl"
    and "optional_trim (field (body req) ''description'') = Inr ds"
    and "td = \<lparr> d_title = ttl, d_description = js_or ds Null,
                 d_priority = js_or (field (body req) ''priority'') (lit ''medium''),
                 d_dueDate = js_or (field (body req) ''dueDate'') Null,
                 d_status = js_or (field (body req) ''status'') (lit ''pending'') \<rparr>"
  shows "update rt now d req =
           (case updateTask rt now d i (user_userId req) td of
              Inl e \<Rightarrow> (d, (500, ErrorBody ''Server error updating task''))
            | Inr (d', None) \<Rightarrow> (d', (404, ErrorBody ''Task not found''))
            | Inr (d', Some task) \<Rightarrow>
                (d', (200, TaskBody (Some ''Task updated successfully'') task)))"
  using assms by (simp add: update_def accepted_def Let_def)

lemma update_unmatched_same:
  assumes "parseInt (params_id req) = Some i" and "int4 i"
    and "\<forall>t\<in>set (tasks d1). \<not> owned i (user_userId req) t"
    and "\<forall>t\<in>set (tasks d2). \<not> owned i (user_userId req) t"
  shows "fst (update rt now d1 req) = d1 \<and> snd (update rt now d1 req) = snd (update rt now d2 req)"
  using assms(1)
  by (simp add: update_def Let_def updateTask_none [OF assms(2) assms(3)]
      updateTask_none [OF assms(2) assms(4)] split: sum.splits bool.splits)

lemma update_unmatched_accepted:
  assumes "parseInt (params_id req) = Some i" and "int4 i"
    and "\<forall>t\<in>set (tasks d). \<not> owned i (user_userId req) t"
    and "accepted rt req" and "storable rt req"
  shows "update rt now d req = (d, (404, ErrorBody ''Task not found''))"
proof -
  from assms(4) obtain ttl ds where tr: "trim (field (body req) ''title'') = Inr ttl"
    and ot: "optional_trim (field (body req) ''description'') = Inr ds"
    by (rule accepted_trims)
  from assms(5) obtain due where
    "date_column rt (js_or (field (body req) ''dueDate'') Null) = Inr due"
    by (auto simp: storable_def split: sum.splits)
  then show ?thesis
    by (simp add: update_accepted [OF assms(4) assms(1) tr ot refl]
        updateTask_none [OF assms(2) assms(3)])
qed

lemma update_unmatched_rejected:
  assumes "parseInt (params_id req) = Some i"
    and "accepted rt req" and "\<not> storable rt req"
  shows "update rt now d req = (d, (500, ErrorBody ''Server error updating task''))"
proof -
  from assms(2) obtain ttl ds where tr: "trim (field (body req) ''title'') = Inr ttl"
    and ot: "optional_trim (field (body req) ''description'') = Inr ds"
    by (rule accepted_trims)
  from assms(3) obtain e where
    "date_column rt (js_or (field (body req) ''dueDate'') Null) = Inl e"
    by (auto simp: storable_def split: sum.splits)
  then show ?thesis
    by (simp add: update_accepted [OF assms(2) assms(1) tr ot refl] updateTask_def)
qed

lemma filter_not_owned_remove1:
  "distinct (map t_id xs) \<Longrightarrow> t \<in> set xs \<Longrightarrow> owned i u t
   \<Longrightarrow> filter (\<lambda>x. \<not> owned i u x) xs = remove1 t xs"
proof (induction xs)
  case Nil
  then show ?case by simp
next
  case (Cons x xs)
  show ?case
  proof (cases "x = t")
    case True
    have "\<forall>y\<in>set xs. t_id y \<noteq> t_id t" using Cons.prems(1) True by (auto simp: image_iff)
    then have "\<forall>y\<in>set xs. \<not> owned i u y"
      using Cons.prems(3) by (auto simp: owned_def sint_eq)
    then have "filter (\<lambda>x. \<not> owned i u x) xs = xs" by (simp add: filter_True)
    then show ?thesis using True Cons.prems(3) by simp
  next
    case False
    then have t: "t \<in> set xs" using Cons.prems(2) by simp
    then have "t_id x \<noteq> t_id t" using Cons.prems(1) by (auto simp: image_iff)
    then have "\<not> owned i u x" using Cons.prems(3) by (auto simp: owned_def sint_eq)
    moreover have "filter (\<lambda>x. \<not> owned i u x) xs = remove1 t xs"
      using Cons.IH Cons.prems(1) t Cons.prems(3) by simp
    ultimately show ?thesis using False by simp
  qed
qed

lemma owned_int4: "owned i u t \<Longrightarrow> int4 i"
  using sint_int4 by (auto simp: owned_def)

lemma deleteTask_owned:
  assumes "distinct (map t_id (tasks d))" and "t \<in> set (tasks d)" and "owned i u t"
  shows "deleteTask d i u = Inr (d\<lparr> tasks := remove1 t (tasks d) \<rparr>, True)"
proof -
  have "t \<in> set (filter (owned i u) (tasks d))" using assms by simp
  then have "filter (owned i u) (tasks d) \<noteq> []" by (metis empty_iff list.set(1))
  then show ?thesis
    using filter_not_owned_remove1 [OF assms] owned_int4 [OF assms(3)]
    by (simp add: deleteTask_def Let_def)
qed




section \<open>Ownership and existence\<close>

text \<open>
  C4: for every caller and task id, get, update and delete answer the same in a store
  where no task has that id and in a store where the task exists but belongs to another
  user. Get and delete answer 404 "Task not found" in both; update leaves both stores
  as they were and gives the same response in both, which, whenever the body passes
  validation, is that 404, or 500 when the store refuses the due date.
\<close>

theorem foreign_task_same_as_missing:
  assumes "parseInt (params_id req) = Some i"
    and "\<forall>t\<in>set (tasks d1). sint (t_id t) \<noteq> i"
    and "\<exists>t\<in>set (tasks d2). sint (t_id t) = i"
    and "\<forall>t\<in>set (tasks d2). sint (t_id t) = i \<longrightarrow> t_user_id t \<noteq> user_userId req"
  shows "getTaskById d1 i (user_userId req) = Inr None \<and>
         getTaskById d2 i (user_userId req) = Inr None \<and>
         getTask d1 req = (404, ErrorBody ''Task not found'') \<and>
         getTask d2 req = (404, ErrorBody ''Task not found'') \<and>
         remove d1 req = (d1, (404, ErrorBody ''Task not found'')) \<and>
         remove d2 req = (d2, (404, ErrorBody ''Task not found'')) \<and>
         fst (update rt now d1 req) = d1 \<and> fst (update rt now d2 req) = d2 \<and>
         snd (update rt now d1 req) = snd (update rt now d2 req) \<and>
         (accepted rt req \<longrightarrow>
            snd (update rt now d1 req)
              = (if storable rt req then (404, ErrorBody ''Task not found'')
                 else (500, ErrorBody ''Server error updating task'')))"
proof -
  have n1: "\<forall>t\<in>set (tasks d1). \<not> owned i (user_userId req) t"
    using assms(2) by (simp add: owned_def)
  have n2: "\<forall>t\<in>set (tasks d2). \<not> owned i (user_userId req) t"
    using assms(4) by (auto simp: owned_def)
  have r: "int4 i" using assms(3) sint_int4 by auto
  note a = assms(1)
  show ?thesis
    using update_unmatched_same [OF a r n1 n2, of rt now]
      update_unmatched_same [OF a r n2 n1, of rt now]
      update_unmatched_accepted [OF a r n1, of rt now]
      update_unmatched_rejected [OF a, of rt now d1]
    by (simp add: getTaskById_none [OF r n1] getTaskById_none [OF r n2]
        getTask_none [OF a r n1] getTask_none [OF a r n2]
        remove_none [OF a r n1] remove_none [OF a r n2])
qed

text \<open>Witness for C4: user 8 asks for task 12, absent from one store and owned by
  user 7 in the other.\<close>

theorem foreign_task_same_as_missing_witness:
  "parseInt (params_id req_12_by_8) = Some 12 \<and>
   user_userId req_12_by_8 = 8 \<and>
   filter (\<lambda>t. sint (t_id t) = 12) (tasks db2) = [] \<and>
   map t_user_id (filter (\<lambda>t. sint (t_id t) = 12) (tasks db1)) = [7] \<and>
   accepted rt0 req_12_by_8 \<and> storable rt0 req_12_by_8 \<and>
   getTask db2 req_12_by_8 = (404, ErrorBody ''Task not found'') \<and>
   getTask db1 req_12_by_8 = (404, ErrorBody ''Task not found'') \<and>
   snd (update rt0 500 db2 req_12_by_8) = snd (update rt0 500 db1 req_12_by_8) \<and>
   snd (update rt0 500 db2 req_12_by_8) = (404, ErrorBody ''Task not found'')"
proof -
  have h1: "parseInt (params_id req_12_by_8) = Some 12"
    by (simp add: req_12_by_8_def parse_defs)
  have h2: "\<forall>t\<in>set (tasks db2). sint (t_id t) \<noteq> 12" by (simp add: db2_def task13_def)
  have h3: "\<exists>t\<in>set (tasks db1). sint (t_id t) = 12" by (simp add: db1_def task12_def)
  have h4: "\<forall>t\<in>set (tasks db1). sint (t_id t) = 12 \<longrightarrow> t_user_id t \<noteq> user_userId req_12_by_8"
    by (simp add: db1_def task12_def task13_def req_12_by_8_def)
  have h5: "accepted rt0 req_12_by_8"
    by (simp add: accepted_def req_12_by_8_def validate_def title_missing_def field_def
        trim_str_def is_space_def ascii_def)
  have h6: "storable rt0 req_12_by_8"
    by (simp add: storable_def req_12_by_8_def field_def js_or_def date_column_def sql_param_def)
  have k: "user_userId req_12_by_8 = 8" "filter (\<lambda>t. sint (t_id t) = 12) (tasks db2) = []"
    "map t_user_id (filter (\<lambda>t. sint (t_id t) = 12) (tasks db1)) = [7]"
    by (simp_all add: req_12_by_8_def db1_def db2_def task12_def task13_def)
  from foreign_task_same_as_missing [OF h1 h2 h3 h4, of rt0 500]
  have "accepted rt0 req_12_by_8 \<longrightarrow>
          snd (update rt0 500 db2 req_12_by_8)
            = (if storable rt0 req_12_by_8 then (404, ErrorBody ''Task not found'')
               else (500, ErrorBody ''Server error updating task''))"
    by blast
  with h5 h6 have u: "snd (update rt0 500 db2 req_12_by_8) = (404, ErrorBody ''Task not found'')"
    by simp
  from foreign_task_same_as_missing [OF h1 h2 h3 h4, of rt0 500] h1 k h5 h6 u
  show ?thesis by blast
qed

section \<open>Delete\<close>

text \<open>
  C8, as stated, fails: for the task id 2147483648, which no task owned by the caller
  has, delete does not report not-found: the id is outside the range of the id column,
  the query fails and the handler answers 500.
\<close>

theorem delete_of_out_of_range_id_fails:
  "parseInt (params_id req_huge_by_7) = Some 2147483648 \<and>
   filter (owned 2147483648 (user_userId req_huge_by_7)) (tasks db1) = [] \<and>
   remove db1 req_huge_by_7 = (db1, (500, ErrorBody ''Server error deleting task''))"
  by (simp add: req_huge_by_7_def remove_def deleteTask_def parse_defs int4_def owned_def
      db1_def task12_def task13_def)

text \<open>
  C8, amended: for every caller and every task id the id column can hold (a 32-bit
  integer), delete reports whether a row was removed. If no task with that id is owned
  by the caller, \<open>deleteTask\<close> returns false, the handler answers 404 and the store is
  unchanged. If the caller owns the task (ids being unique), \<open>deleteTask\<close> returns
  true, the handler answers 200, and the table is the old one with exactly that row
  taken out. For an id outside that range the query fails, the handler answers 500 and
  the store is unchanged.
\<close>

theorem delete_removes_exactly_the_owned_row:
  assumes "parseInt (params_id req) = Some i" and "user_userId req = u"
  shows "(int4 i \<and> (\<forall>t\<in>set (tasks d). \<not> owned i u t) \<longrightarrow>
            deleteTask d i u = Inr (d, False) \<and>
            remove d req = (d, (404, ErrorBody ''Task not found''))) \<and>
         (distinct (map t_id (tasks d)) \<and> t \<in> set (tasks d) \<and> owned i u t \<longrightarrow>
            deleteTask d i u = Inr (d\<lparr> tasks := remove1 t (tasks d) \<rparr>, True) \<and>
            remove d req = (d\<lparr> tasks := remove1 t (tasks d) \<rparr>,
                            (200, MessageBody ''Task deleted successfully'')) \<and>
            length (remove1 t (tasks d)) + 1 = length (tasks d) \<and>
            t \<notin> set (remove1 t (tasks d))) \<and>
         (\<not> int4 i \<longrightarrow>
            deleteTask d i u = Inl (PgError ''22003'') \<and>
            remove d req = (d, (500, ErrorBody ''Server error deleting task'')))"
proof -
  have a: "int4 i \<and> (\<forall>t\<in>set (tasks d). \<not> owned i u t) \<longrightarrow>
            deleteTask d i u = Inr (d, False) \<and>
            remove d req = (d, (404, ErrorBody ''Task not found''))"
    using assms by (auto simp: deleteTask_none remove_none)
  have b: "distinct (map t_id (tasks d)) \<and> t \<in> set (tasks d) \<and> owned i u t \<longrightarrow>
            deleteTask d i u = Inr (d\<lparr> tasks := remove1 t (tasks d) \<rparr>, True) \<and>
            remove d req = (d\<lparr> tasks := remove1 t (tasks d) \<rparr>,
                            (200, MessageBody ''Task deleted successfully'')) \<and>
            length (remove1 t (tasks d)) + 1 = length (tasks d) \<and>
            t \<notin> set (remove1 t (tasks d))"
  proof (intro impI, elim conjE)
    assume h: "distinct (map t_id (tasks d))" "t \<in> set (tasks d)" "owned i u t"
    have 1: "deleteTask d i u = Inr (d\<lparr> tasks := remove1 t (tasks d) \<rparr>, True)"
      using h by (rule deleteTask_owned)
    have 2: "remove d req = (d\<lparr> tasks := remove1 t (tasks d) \<rparr>,
                            (200, MessageBody ''Task deleted successfully''))"
      using assms 1 by (simp add: remove_def)
    have 3: "length (remove1 t (tasks d)) + 1 = length (tasks d)"
      using h(2) by (simp add: length_remove1) (metis One_nat_def Suc_pred length_pos_if_in_set)
    have d: "distinct (tasks d)" using h(1) by (rule distinct_map [THEN iffD1, THEN conjunct1])
    have 4: "t \<notin> set (remove1 t (tasks d))" using d by simp
    from 1 2 3 4 show "deleteTask d i u = Inr (d\<lparr> tasks := remove1 t (tasks d) \<rparr>, True) \<and>
            remove d req = (d\<lparr> tasks := remove1 t (tasks d) \<rparr>,
                            (200, MessageBody ''Task deleted successfully'')) \<and>
            length (remove1 t (tasks d)) + 1 = length (tasks d) \<and>
            t \<notin> set (remove1 t (tasks d))" by simp
  qed
  have c: "\<not> int4 i \<longrightarrow>
            deleteTask d i u = Inl (PgError ''22003'') \<and>
            remove d req = (d, (500, ErrorBody ''Server error deleting task''))"
    using assms by (simp add: deleteTask_def remove_def)
  from a b c show ?thesis by blast
qed

text \<open>Witness for C8: task 12 deleted by user 8 (not found) and by its owner, and a
  delete of id 2147483648.\<close>

theorem delete_removes_exactly_the_owned_row_witness:
  "parseInt (params_id req_12_by_8) = Some 12 \<and> parseInt (params_id req_12_by_7) = Some 12 \<and>
   int4 12 \<and> filter (owned 12 8) (tasks db1) = [] \<and>
   remove db1 req_12_by_8 = (db1, (404, ErrorBody ''Task not found'')) \<and>
   distinct (map t_id (tasks db1)) \<and> task12 \<in> set (tasks db1) \<and> owned 12 7 task12 \<and>
   remove db1 req_12_by_7 = (db1\<lparr> tasks := remove1 task12 (tasks db1) \<rparr>,
                             (200, MessageBody ''Task deleted successfully'')) \<and>
   parseInt (params_id req_huge_by_7) = Some 2147483648 \<and> \<not> int4 2147483648 \<and>
   remove db2 req_huge_by_7 = (db2, (500, ErrorBody ''Server error deleting task''))"
proof -
  have h1: "parseInt (params_id req_12_by_8) = Some 12"
    by (simp add: req_12_by_8_def parse_defs)
  have h2: "parseInt (params_id req_12_by_7) = Some 12"
    by (simp add: req_12_by_7_def parse_defs)
  have u8: "user_userId req_12_by_8 = 8" by (simp add: req_12_by_8_def)
  have u7: "user_userId req_12_by_7 = 7" by (simp add: req_12_by_7_def)
  have h3: "\<forall>t\<in>set (tasks db1). \<not> owned 12 8 t"
    by (simp add: db1_def task12_def task13_def owned_def)
  have h4: "distinct (map t_id (tasks db1))" by (simp add: db1_def task12_def task13_def)
  have h5: "task12 \<in> set (tasks db1)" by (simp add: db1_def)
  have h6: "owned 12 7 task12" by (simp add: owned_def task12_def)
  have h7: "int4 12" "\<not> int4 2147483648" by (simp_all add: int4_def)
  have h8: "parseInt (params_id req_huge_by_7) = Some 2147483648"
    by (simp add: req_huge_by_7_def parse_defs)
  have u: "user_userId req_huge_by_7 = 7" by (simp add: req_huge_by_7_def)
  have k: "filter (owned 12 8) (tasks db1) = []"
    by (simp add: db1_def task12_def task13_def owned_def)
  from delete_removes_exactly_the_owned_row [OF h1 u8, of db1] delete_removes_exactly_the_owned_row [OF h2 u7, of db1 task12] delete_removes_exactly_the_owned_row [OF h8 u, of db2]
    h1 h2 h3 h4 h5 h6 h7 h8 k
  show ?thesis by blast
qed

section \<open>Update\<close>



section \<open>Validation and defaults\<close>

lemma validate_bad:
  assumes "\<not> truthy ttl \<or> (\<exists>x. ttl = Str x)"
    and "(truthy p \<and> p \<notin> set validPriorities) \<or> (truthy s \<and> s \<notin> set validStatuses)
         \<or> (truthy dd \<and> new_Date rt dd = Inr False)"
  shows "\<exists>msg. validate rt ttl p s dd = Inr (Inl (400, ErrorBody msg))"
  using assms by (auto simp: validate_def title_missing_def split: bool.splits)

lemma create_rejected:
  "validate rt (field (body req) ''title'') (field (body req) ''priority'')
     (field (body req) ''status'') (field (body req) ''dueDate'') = Inr (Inl r)
   \<Longrightarrow> create rt now d req = (d, r)"
  by (simp add: create_def)

lemma update_rejected:
  "validate rt (field (body req) ''title'') (field (body req) ''priority'')
     (field (body req) ''status'') (field (body req) ''dueDate'') = Inr (Inl (400, b))
   \<Longrightarrow> fst (update rt now d req) = d \<and> fst (snd (update rt now d req)) = 400"
  by (simp add: update_def split: option.splits)

lemma updateTask_Some:
  "updateTask rt now d i u td = Inr (d', Some t) \<Longrightarrow>
   \<exists>t0 due. getTaskById d i u = Inr (Some t0) \<and> date_column rt (d_dueDate td) = Inr due \<and>
            t = set_columns now td due t0"
  by (auto simp: updateTask_def getTaskById_def Let_def split: list.splits sum.splits if_splits)

lemma create_success_row:
  assumes "snd (create rt now d req) = (201, TaskBody m t)"
  shows "\<exists>ttl ds due.
           date_column rt (js_or (field (body req) ''dueDate'') Null) = Inr due \<and>
           t = \<lparr> t_id = next_task_id d, t_user_id = user_userId req,
                 t_title = sql_param ttl,
                 t_description = js_or ds Null,
                 t_priority = js_or (field (body req) ''priority'') (lit ''medium''),
                 t_due_date = due,
                 t_status = js_or (field (body req) ''status'') (lit ''pending''),
                 t_created_at = now, t_updated_at = now \<rparr> \<and>
           tasks (fst (create rt now d req)) = tasks d @ [t]"
proof -
  from assms have a: "accepted rt req" by (rule create_success_accepted)
  then obtain ttl ds where tr: "trim (field (body req) ''title'') = Inr ttl"
    and ot: "optional_trim (field (body req) ''description'') = Inr ds"
    by (rule accepted_trims)
  from assms show ?thesis
    by (auto simp: create_accepted [OF a tr ot] createTask_def Let_def split: sum.splits) blast+
qed

lemma update_success_row:
  assumes "snd (update rt now d req) = (200, TaskBody m t)"
  shows "\<exists>i ttl ds due t0. parseInt (params_id req) = Some i \<and>
           getTaskById d i (user_userId req) = Inr (Some t0) \<and>
           date_column rt (js_or (field (body req) ''dueDate'') Null) = Inr due \<and>
           t = set_columns now
                 \<lparr> d_title = ttl, d_description = js_or ds Null,
                   d_priority = js_or (field (body req) ''priority'') (lit ''medium''),
                   d_dueDate = js_or (field (body req) ''dueDate'') Null,
                   d_status = js_or (field (body req) ''status'') (lit ''pending'') \<rparr> due t0"
proof -
  from assms have a: "accepted rt req" and "parseInt (params_id req) \<noteq> None"
    using update_success_accepted by blast+
  then obtain i where i: "parseInt (params_id req) = Some i" by blast
  from a obtain ttl ds where tr: "trim (field (body req) ''title'') = Inr ttl"
    and ot: "optional_trim (field (body req) ''description'') = Inr ds"
    by (rule accepted_trims)
  note u = update_accepted [OF a i tr ot refl, of now d]
  from assms u obtain d' where "updateTask rt now d i (user_userId req)
         \<lparr> d_title = ttl, d_description = js_or ds Null,
                   d_priority = js_or (field (body req) ''priority'') (lit ''medium''),
                   d_dueDate = js_or (field (body req) ''dueDate'') Null,
                   d_status = js_or (field (body req) ''status'') (lit ''pending'') \<rparr>
           = Inr (d', Some t)"
    by (auto split: option.splits sum.splits prod.splits)
  from updateTask_Some [OF this] i show ?thesis by auto
qed

lemma js_or_if: "js_or a b = (if truthy a then a else b)"
  by (simp add: js_or_def)

lemma date_column_truthy: "truthy v \<Longrightarrow> date_column rt v = pg_date rt v"
  by (cases v) (auto simp: date_column_def sql_param_def)

lemma date_column_Null: "date_column rt Null = Inr Null"
  by (simp add: date_column_def sql_param_def)


text \<open>
  C2, as stated, fails: a priority that is present but is the empty string is outside
  \<open>{low, medium, high}\<close>, yet create answers 201 and stores the default \<open>medium\<close>.
\<close>

theorem empty_priority_gets_default:
  "map_of (body req_blank_priority) ''priority'' = Some (Str []) \<and>
   Str [] \<notin> set validPriorities \<and>
   snd (create rt0 200 db1 req_blank_priority)
     = (201, TaskBody (Some ''Task created successfully'')
              \<lparr> t_id = 14, t_user_id = 7, t_title = lit ''Buy milk'', t_description = Null,
                t_priority = lit ''medium'', t_due_date = Null, t_status = lit ''pending'',
                t_created_at = 200, t_updated_at = 200 \<rparr>)"
  by (simp add: req_blank_priority_def eval_defs)

text \<open>
  C2, amended: for every create or update request whose title is a string or falsy,
  a truthy priority outside \<open>{low, medium, high}\<close>, a truthy status outside
  \<open>{pending, in_progress, completed}\<close> or a truthy due date that \<open>new Date\<close> turns into
  an invalid date is answered with status 400 and the store is unchanged. In every
  task a successful create or update returns, priority and status are the
  submitted value when it is truthy and the default (medium, pending) otherwise, and
  the due date is what the store makes of the submitted one when it is truthy and null
  otherwise: the default stands in exactly for a field that is absent or falsy (null,
  false, 0, the empty string).
\<close>

theorem invalid_fields_rejected_falsy_defaulted:
  fixes req :: request
  defines "title \<equiv> field (body req) ''title''"
    and "priority \<equiv> field (body req) ''priority''"
    and "status \<equiv> field (body req) ''status''"
    and "dueDate \<equiv> field (body req) ''dueDate''"
  shows
  "((\<not> truthy title \<or> (\<exists>x. title = Str x)) \<and>
    ((truthy priority \<and> priority \<notin> set validPriorities) \<or>
     (truthy status \<and> status \<notin> set validStatuses) \<or>
     (truthy dueDate \<and> new_Date rt dueDate = Inr False))
    \<longrightarrow> fst (snd (create rt now d req)) = 400 \<and> fst (create rt now d req) = d \<and>
        fst (snd (update rt now d req)) = 400 \<and> fst (update rt now d req) = d) \<and>
   (snd (create rt now d req) = (201, TaskBody m t) \<or>
    snd (update rt now d req) = (200, TaskBody m t)
    \<longrightarrow> t_priority t = (if truthy priority then priority else lit ''medium'') \<and>
        t_status t = (if truthy status then status else lit ''pending'') \<and>
        (if truthy dueDate then pg_date rt dueDate = Inr (t_due_date t) else t_due_date t = Null))"
proof -
  have a: "(\<not> truthy title \<or> (\<exists>x. title = Str x)) \<and>
    ((truthy priority \<and> priority \<notin> set validPriorities) \<or>
     (truthy status \<and> status \<notin> set validStatuses) \<or>
     (truthy dueDate \<and> new_Date rt dueDate = Inr False))
    \<longrightarrow> fst (snd (create rt now d req)) = 400 \<and> fst (create rt now d req) = d \<and>
        fst (snd (update rt now d req)) = 400 \<and> fst (update rt now d req) = d"
  proof
    assume h: "(\<not> truthy title \<or> (\<exists>x. title = Str x)) \<and>
    ((truthy priority \<and> priority \<notin> set validPriorities) \<or>
     (truthy status \<and> status \<notin> set validStatuses) \<or>
     (truthy dueDate \<and> new_Date rt dueDate = Inr False))"
    then obtain msg where v: "validate rt title priority status dueDate = Inr (Inl (400, ErrorBody msg))"
      using validate_bad [of title priority status dueDate rt] by blast
    from v have "create rt now d req = (d, (400, ErrorBody msg))"
      unfolding title_def priority_def status_def dueDate_def by (rule create_rejected)
    moreover from v have "fst (update rt now d req) = d \<and> fst (snd (update rt now d req)) = 400"
      unfolding title_def priority_def status_def dueDate_def by (rule update_rejected)
    ultimately show "fst (snd (create rt now d req)) = 400 \<and> fst (create rt now d req) = d \<and>
        fst (snd (update rt now d req)) = 400 \<and> fst (update rt now d req) = d" by simp
  qed
  have b: "snd (create rt now d req) = (201, TaskBody m t)
    \<longrightarrow> t_priority t = (if truthy priority then priority else lit ''medium'') \<and>
        t_status t = (if truthy status then status else lit ''pending'') \<and>
        (if truthy dueDate then pg_date rt dueDate = Inr (t_due_date t) else t_due_date t = Null)"
  proof
    assume "snd (create rt now d req) = (201, TaskBody m t)"
    from create_success_row [OF this]
    show "t_priority t = (if truthy priority then priority else lit ''medium'') \<and>
        t_status t = (if truthy status then status else lit ''pending'') \<and>
        (if truthy dueDate then pg_date rt dueDate = Inr (t_due_date t) else t_due_date t = Null)"
      by (auto simp: js_or_if priority_def status_def dueDate_def date_column_truthy
          date_column_Null)
  qed
  have c: "snd (update rt now d req) = (200, TaskBody m t)
    \<longrightarrow> t_priority t = (if truthy priority then priority else lit ''medium'') \<and>
        t_status t = (if truthy status then status else lit ''pending'') \<and>
        (if truthy dueDate then pg_date rt dueDate = Inr (t_due_date t) else t_due_date t = Null)"
  proof
    assume "snd (update rt now d req) = (200, TaskBody m t)"
    from update_success_row [OF this]
    show "t_priority t = (if truthy priority then priority else lit ''medium'') \<and>
        t_status t = (if truthy status then status else lit ''pending'') \<and>
        (if truthy dueDate then pg_date rt dueDate = Inr (t_due_date t) else t_due_date t = Null)"
      by (auto simp: js_or_if sql_param_def set_columns_def priority_def status_def dueDate_def
          date_column_truthy date_column_Null)
  qed
  from a b c show ?thesis by blast
qed

text \<open>Witness for C2: the priority \<open>urgent\<close> is rejected by create and update; a body with
  every field set is stored with the submitted priority and status and the store's
  form of the date.\<close>

theorem invalid_fields_rejected_falsy_defaulted_witness:
  "field (body req_bad_priority) ''title'' = lit ''Buy milk'' \<and>
   truthy (field (body req_bad_priority) ''priority'') \<and>
   field (body req_bad_priority) ''priority'' \<notin> set validPriorities \<and>
   fst (snd (create rt0 200 db1 req_bad_priority)) = 400 \<and>
   fst (create rt0 200 db1 req_bad_priority) = db1 \<and>
   fst (snd (update rt0 200 db1 req_bad_priority)) = 400 \<and>
   fst (update rt0 200 db1 req_bad_priority) = db1 \<and>
   snd (create rt0 200 db1 req_full) = (201, TaskBody (Some ''Task created successfully'') task14) \<and>
   t_priority task14 = field (body req_full) ''priority'' \<and>
   t_status task14 = field (body req_full) ''status'' \<and>
   pg_date rt0 (field (body req_full) ''dueDate'') = Inr (t_due_date task14)"
proof -
  have h1: "field (body req_bad_priority) ''title'' = lit ''Buy milk''"
    by (simp add: req_bad_priority_def field_def)
  have h2: "truthy (field (body req_bad_priority) ''priority'')"
    by (simp add: req_bad_priority_def field_def ascii_def)
  have h3: "field (body req_bad_priority) ''priority'' \<notin> set validPriorities"
    by (simp add: req_bad_priority_def field_def validPriorities_def ascii_def)
  have h4: "snd (create rt0 200 db1 req_full)
              = (201, TaskBody (Some ''Task created successfully'') task14)"
    by (simp add: req_full_def task14_def eval_defs)
  have h5: "truthy (field (body req_full) ''priority'')" "truthy (field (body req_full) ''status'')"
    "truthy (field (body req_full) ''dueDate'')"
    by (simp_all add: req_full_def field_def ascii_def)
  from invalid_fields_rejected_falsy_defaulted [of req_bad_priority rt0 200 db1]
    invalid_fields_rejected_falsy_defaulted [of req_full rt0 200 db1 "Some ''Task created successfully''" task14] h1 h2 h3 h4 h5
  show ?thesis by simp
qed

section \<open>Create, then fetch\<close>




section \<open>Identity and ownership of stored tasks\<close>

lemma task_identity_set_columns: "task_identity (set_columns now td due t) = task_identity t"
  by (simp add: task_identity_def set_columns_def)

lemma updateTask_identities:
  "updateTask rt now d i u td = Inr (d', r)
   \<Longrightarrow> map task_identity (tasks d') = map task_identity (tasks d)"
  by (auto simp: updateTask_def Let_def task_identity_set_columns comp_def
      split: sum.splits if_splits)

lemma update_identities:
  "map task_identity (tasks (fst (update rt now d req))) = map task_identity (tasks d)"
  by (auto simp: update_def Let_def dest: updateTask_identities
      split: option.splits sum.splits prod.splits)

lemma create_store:
  "tasks (fst (create rt now d req)) = tasks d \<or>
   (\<exists>t. tasks (fst (create rt now d req)) = tasks d @ [t] \<and> t_user_id t = user_userId req
        \<and> t_id t = next_task_id d)"
  by (auto simp: create_def Let_def createTask_def split: sum.splits prod.splits)

lemma remove_store: "set (tasks (fst (remove d req))) \<subseteq> set (tasks d)"
  by (auto simp: remove_def deleteTask_def Let_def split: option.splits sum.splits if_splits)

text \<open>
  C10: every operation preserves each task's identity and ownership. A successful
  create appends one row whose owner is the user id of the verified token, whatever
  the body contains; a create that fails leaves the table as it was. A successful
  update returns a task with the id, owner and creation timestamp of the row it
  matched, and update never changes the id, owner or creation timestamp of any row.
  Delete only removes rows.
\<close>

theorem identity_and_owner_preserved:
  "(snd (create rt now d req) = (201, TaskBody m t) \<longrightarrow>
      t_user_id t = user_userId req \<and> tasks (fst (create rt now d req)) = tasks d @ [t]) \<and>
   (tasks (fst (create rt now d req)) = tasks d \<or>
      (\<exists>t'. tasks (fst (create rt now d req)) = tasks d @ [t'] \<and>
            t_user_id t' = user_userId req \<and> t_id t' = next_task_id d)) \<and>
   (snd (update rt now d req) = (200, TaskBody m t) \<longrightarrow>
      (\<exists>i t0. parseInt (params_id req) = Some i \<and>
             getTaskById d i (user_userId req) = Inr (Some t0) \<and>
             t_id t = t_id t0 \<and> t_user_id t = t_user_id t0 \<and> t_created_at t = t_created_at t0)) \<and>
   map task_identity (tasks (fst (update rt now d req))) = map task_identity (tasks d) \<and>
   set (tasks (fst (remove d req))) \<subseteq> set (tasks d)"
proof -
  have a: "snd (create rt now d req) = (201, TaskBody m t) \<longrightarrow>
      t_user_id t = user_userId req \<and> tasks (fst (create rt now d req)) = tasks d @ [t]"
  proof
    assume "snd (create rt now d req) = (201, TaskBody m t)"
    from create_success_row [OF this]
    show "t_user_id t = user_userId req \<and> tasks (fst (create rt now d req)) = tasks d @ [t]"
      by auto
  qed
  have b: "snd (update rt now d req) = (200, TaskBody m t) \<longrightarrow>
      (\<exists>i t0. parseInt (params_id req) = Some i \<and>
             getTaskById d i (user_userId req) = Inr (Some t0) \<and>
             t_id t = t_id t0 \<and> t_user_id t = t_user_id t0 \<and> t_created_at t = t_created_at t0)"
  proof
    assume "snd (update rt now d req) = (200, TaskBody m t)"
    from update_success_row [OF this]
    show "\<exists>i t0. parseInt (params_id req) = Some i \<and>
             getTaskById d i (user_userId req) = Inr (Some t0) \<and>
             t_id t = t_id t0 \<and> t_user_id t = t_user_id t0 \<and> t_created_at t = t_created_at t0"
      by (auto simp: set_columns_def)
  qed
  have c: "map task_identity (tasks (fst (update rt now d req))) = map task_identity (tasks d)"
    by (rule update_identities)
  from a b c create_store [of rt now d req] remove_store [of d req] show ?thesis by blast
qed

text \<open>Witness for C10: user 7 creates a task with a body that carries \<open>userId = 999\<close>,
  and retitles task 12.\<close>

theorem identity_and_owner_preserved_witness:
  "field (body req_full) ''userId'' = Num 999 \<and> user_userId req_full = 7 \<and>
   snd (create rt0 200 db1 req_full) = (201, TaskBody (Some ''Task created successfully'') task14) \<and>
   t_user_id task14 = user_userId req_full \<and>
   tasks (fst (create rt0 200 db1 req_full)) = tasks db1 @ [task14] \<and>
   snd (update rt0 500 db1 req_12_by_7)
     = (200, TaskBody (Some ''Task updated successfully'') task12_retitled) \<and>
   (\<exists>i t0. parseInt (params_id req_12_by_7) = Some i \<and>
          getTaskById db1 i (user_userId req_12_by_7) = Inr (Some t0) \<and>
          t_id task12_retitled = t_id t0 \<and> t_user_id task12_retitled = t_user_id t0 \<and>
          t_created_at task12_retitled = t_created_at t0)"
proof -
  have h0: "field (body req_full) ''userId'' = Num 999" "user_userId req_full = 7"
    by (simp_all add: req_full_def field_def)
  have h1: "snd (create rt0 200 db1 req_full)
              = (201, TaskBody (Some ''Task created successfully'') task14)"
    by (simp add: req_full_def task14_def eval_defs)
  have h2: "snd (update rt0 500 db1 req_12_by_7)
              = (200, TaskBody (Some ''Task updated successfully'') task12_retitled)"
    by (simp add: req_12_by_7_def task12_retitled_def eval_defs parse_defs)
  from identity_and_owner_preserved [of rt0 200 db1 req_full "Some ''Task created successfully''" task14]
    identity_and_owner_preserved [of rt0 500 db1 req_12_by_7 "Some ''Task updated successfully''" task12_retitled]
    h0 h1 h2
  show ?thesis by blast
qed

section \<open>Reading users\<close>

text \<open>
  C1, as stated, fails: \<open>findUserByEmail\<close> selects the \<open>password_hash\<close> column, so the
  record it returns for a stored user contains the hash.
\<close>

theorem findUserByEmail_returns_hash:
  "findUserByEmail rt0 db_users (lit ''alice@example.com'')
     = Some [(''id'', Num 7), (''email'', lit ''alice@example.com''),
             (''password_hash'', lit ''$secret1''), (''name'', lit ''Alice''),
             (''created_at'', Num 50)]"
  by (simp add: findUserByEmail_def db_users_def alice_def sql_text_def sql_value_def)

text \<open>
  C1, amended: for every stored user, \<open>findUserById\<close> returns a record with the columns
  id, email, name and created_at, in which \<open>password_hash\<close> is absent; \<open>findUserByEmail\<close>
  returns the record of a row with that email including the row's \<open>password_hash\<close>,
  which login compares the submitted password against.
\<close>

theorem findUserById_omits_hash:
  "(findUserById d userId = Some u \<longrightarrow>
      map_of u ''password_hash'' = None \<and> map fst u = [''id'', ''email'', ''name'', ''created_at'']) \<and>
   (findUserByEmail rt d email = Some u \<longrightarrow>
      (\<exists>row\<in>set (users d). u_email row = sql_text rt email \<and>
         map_of u ''password_hash'' = Some (Str (u_password_hash row))))"
proof -
  have a: "findUserById d userId = Some u \<longrightarrow>
      map_of u ''password_hash'' = None \<and> map fst u = [''id'', ''email'', ''name'', ''created_at'']"
    by (auto simp: findUserById_def split: list.splits)
  have b: "findUserByEmail rt d email = Some u \<longrightarrow>
      (\<exists>row\<in>set (users d). u_email row = sql_text rt email \<and>
         map_of u ''password_hash'' = Some (Str (u_password_hash row)))"
  proof
    assume h: "findUserByEmail rt d email = Some u"
    then obtain row rest where
      f: "filter (\<lambda>r. u_email r \<noteq> None \<and> u_email r = sql_text rt email) (users d) = row # rest"
      and u: "u = [(''id'', Num (sint (u_id row))), (''email'', sql_value (u_email row)),
                (''password_hash'', Str (u_password_hash row)), (''name'', sql_value (u_name row)),
                (''created_at'', Num (int (u_created_at row)))]"
      by (auto simp: findUserByEmail_def split: list.splits)
    from f have "row \<in> set (filter (\<lambda>r. u_email r \<noteq> None \<and> u_email r = sql_text rt email) (users d))"
      by simp
    then have "row \<in> set (users d)" and "u_email row = sql_text rt email" by auto
    then show "\<exists>row\<in>set (users d). u_email row = sql_text rt email \<and>
         map_of u ''password_hash'' = Some (Str (u_password_hash row))"
      using u by auto
  qed
  from a b show ?thesis by blast
qed

text \<open>Witness for C1: a stored user, read by id and by email.\<close>

theorem findUserById_omits_hash_witness:
  "findUserById db_users 7
     = Some [(''id'', Num 7), (''email'', lit ''alice@example.com''), (''name'', lit ''Alice''),
             (''created_at'', Num 50)] \<and>
   map_of [(''id'', Num 7), (''email'', lit ''alice@example.com''), (''name'', lit ''Alice''),
           (''created_at'', Num 50)] ''password_hash'' = None \<and>
   (\<exists>u. findUserByEmail rt0 db_users (lit ''alice@example.com'') = Some u \<and>
        (\<exists>row\<in>set (users db_users). u_email row = sql_text rt0 (lit ''alice@example.com'') \<and>
           map_of u ''password_hash'' = Some (Str (u_password_hash row))))"
proof -
  have h1: "findUserById db_users 7
     = Some [(''id'', Num 7), (''email'', lit ''alice@example.com''), (''name'', lit ''Alice''),
             (''created_at'', Num 50)]"
    by (simp add: findUserById_def db_users_def alice_def sql_value_def)
  have h2: "findUserByEmail rt0 db_users (lit ''alice@example.com'')
     = Some [(''id'', Num 7), (''email'', lit ''alice@example.com''),
             (''password_hash'', lit ''$secret1''), (''name'', lit ''Alice''),
             (''created_at'', Num 50)]"
    by (simp add: findUserByEmail_def db_users_def alice_def sql_text_def sql_value_def)
  from findUserById_omits_hash [of db_users 7 "[(''id'', Num 7), (''email'', lit ''alice@example.com''),
      (''name'', lit ''Alice''), (''created_at'', Num 50)]" rt0 "lit ''alice@example.com''"]
    findUserById_omits_hash [of db_users 7 "[(''id'', Num 7), (''email'', lit ''alice@example.com''),
             (''password_hash'', lit ''$secret1''), (''name'', lit ''Alice''),
             (''created_at'', Num 50)]" rt0 "lit ''alice@example.com''"] h1 h2
  show ?thesis by blast
qed

section \<open>Login\<close>

text \<open>For a password that is a string, the two failures of login are the same
  response.\<close>

lemma login_failures_identical_for_strings:
  assumes "truthy (field (body req) ''email'')" and "field (body req) ''password'' = Str p"
    and "p \<noteq> []"
    and "findUserByEmail rt d1 (field (body req) ''email'') = None"
    and "findUserByEmail rt d2 (field (body req) ''email'') = Some user"
    and "field user ''password_hash'' = Str h" and "\<not> hash_matches rt p h"
  shows "login rt d1 req = login rt d2 req \<and>
         login rt d1 req = (401, ErrorBody ''Invalid email or password'')"
  using assms by (simp add: login_def bcrypt_compare_def)

text \<open>
  C5 (a defect of the code): with a number as password, login answers 401 "Invalid
  email or password" when no user has the email, but 500 "Server error during login"
  when a user has it, because bcrypt rejects the comparison of a non-string; the two
  failures differ in status and body, and tell whether the email is registered. With a
  wrong password that is a string both answer the same 401.
\<close>

theorem number_password_reveals_registered_email:
  "truthy (field (body req_login_alice_number) ''password'') \<and>
   findUserByEmail rt0 db_empty (field (body req_login_alice_number) ''email'') = None \<and>
   login rt0 db_empty req_login_alice_number = (401, ErrorBody ''Invalid email or password'') \<and>
   login rt0 db_users req_login_alice_number = (500, ErrorBody ''Server error during login'') \<and>
   login rt0 db_empty req_login_alice_wrong = (401, ErrorBody ''Invalid email or password'') \<and>
   login rt0 db_users req_login_alice_wrong = (401, ErrorBody ''Invalid email or password'')"
  by (simp add: req_login_alice_number_def req_login_alice_wrong_def login_def field_def
      findUserByEmail_def db_empty_def db_users_def alice_def sql_text_def sql_value_def
      bcrypt_compare_def rt0_def ascii_def)

text \<open>C5, the defect at this request: the failure for the registered email is not the
  failure for the unknown email.\<close>

theorem number_password_reveals_registered_email_witness:
  "login rt0 db_users req_login_alice_number \<noteq> login rt0 db_empty req_login_alice_number"
  using number_password_reveals_registered_email by simp

section \<open>Signup\<close>







end
